theory Spec2Isabelle
  imports Main "HOL-Library.Word"
begin

unbundle bit_operations_syntax

section \<open>Data model of \<open>arch/z80/src/common/z80_createstack.c\<close>\<close>

text \<open>
  The source casts every address to \<open>uint32_t\<close> before it computes with it, so addresses
  are 32-bit words. The declaration of \<open>size_t\<close> is not part of the file; it is taken at
  the same width, so that the arithmetic of lines 158 to 165 is arithmetic modulo
  \<open>2 ^ 32\<close> throughout. The null pointer is the word \<open>0\<close>.
\<close>

type_synonym uint32_t = "32 word"
type_synonym uint8_t = "8 word"
type_synonym size_t = "32 word"

text \<open>
  The thread types the header comment of \<open>up_create_stack\<close> lists. The function only
  tests \<open>ttype == TCB_FLAG_TTYPE_KERNEL\<close>.
\<close>

datatype ttype = TCB_FLAG_TTYPE_TASK | TCB_FLAG_TTYPE_PTHREAD | TCB_FLAG_TTYPE_KERNEL

text \<open>The three preprocessor switches the function is compiled under.\<close>

record config =
  CONFIG_MM_KERNEL_HEAP :: bool
  CONFIG_DEBUG_FEATURES :: bool
  CONFIG_STACK_COLORATION :: bool

text \<open>The fields of \<open>struct tcb_s\<close> that the function reads and writes.\<close>

record tcb_s =
  stack_alloc_ptr :: uint32_t
  adj_stack_ptr :: uint32_t
  adj_stack_size :: size_t

text \<open>The value returned: \<open>OK\<close> or \<open>ERROR\<close>.\<close>

datatype result = OK | ERROR

text \<open>
  The two allocation domains, and the calls made to them. The log \<open>heap_calls\<close> is kept
  in the order of the calls.
\<close>

datatype heap = KMM | KUMM

datatype heap_call = Malloc heap size_t uint32_t | Free heap uint32_t

text \<open>
  Everything outside the descriptor that the function touches: the bytes of memory, the
  two heaps, the debug output and the board LED. The heaps are external; a run of the
  function is determined by what they hand out, so each heap is given as the list of the
  addresses its next calls return (\<open>0\<close>, or an exhausted list, is a failed allocation).
\<close>

record machine =
  memory :: "uint32_t \<Rightarrow> uint8_t"
  kmm_supply :: "uint32_t list"
  kumm_supply :: "uint32_t list"
  heap_calls :: "heap_call list"
  serr_log :: "size_t list"
  led_stackcreated :: bool

section \<open>The collaborators\<close>

text \<open>The address a heap returns at its next call.\<close>

fun next_region :: "uint32_t list \<Rightarrow> uint32_t" where
  "next_region [] = 0"
| "next_region (p # ps) = p"

text \<open>
  Modelled from the spec: the kernel-domain allocator \<open>kmm_malloc\<close> (\<open>nuttx/kmalloc.h\<close>) is
  not among the sources. Section 6: \<open>allocate(size) -> region-handle | failure\<close>, synchronous,
  succeeding or failing at once.
\<close>

definition kmm_malloc :: "machine \<Rightarrow> size_t \<Rightarrow> uint32_t \<times> machine" where
  "kmm_malloc m n =
     (next_region (kmm_supply m),
      m\<lparr>kmm_supply := tl (kmm_supply m),
        heap_calls := heap_calls m @ [Malloc KMM n (next_region (kmm_supply m))]\<rparr>)"

text \<open>
  Modelled from the spec: the user-domain allocator \<open>kumm_malloc\<close>, as \<open>kmm_malloc\<close>.
\<close>

definition kumm_malloc :: "machine \<Rightarrow> size_t \<Rightarrow> uint32_t \<times> machine" where
  "kumm_malloc m n =
     (next_region (kumm_supply m),
      m\<lparr>kumm_supply := tl (kumm_supply m),
        heap_calls := heap_calls m @ [Malloc KUMM n (next_region (kumm_supply m))]\<rparr>)"

text \<open>
  Modelled from the spec: \<open>kmm_free\<close> and \<open>kumm_free\<close>, section 6: \<open>free(region-handle)\<close>.
\<close>

definition kmm_free :: "machine \<Rightarrow> uint32_t \<Rightarrow> machine" where
  "kmm_free m p = m\<lparr>heap_calls := heap_calls m @ [Free KMM p]\<rparr>"

definition kumm_free :: "machine \<Rightarrow> uint32_t \<Rightarrow> machine" where
  "kumm_free m p = m\<lparr>heap_calls := heap_calls m @ [Free KUMM p]\<rparr>"

text \<open>
  Modelled from the spec: \<open>up_release_stack\<close> lives in another file of the repository.
  Section 4.3: it frees \<open>raw_base\<close> back to the domain re-derived from the privilege class
  and the build configuration, and resets the descriptor to the unallocated state
  (\<open>raw_base = none\<close>, adjusted fields cleared). On a descriptor that holds nothing it
  frees nothing.
\<close>

definition up_release_stack :: "config \<Rightarrow> tcb_s \<Rightarrow> machine \<Rightarrow> ttype \<Rightarrow> tcb_s \<times> machine" where
  "up_release_stack cfg tcb m ttype =
     (let m' = (if stack_alloc_ptr tcb = 0 then m
                else if CONFIG_MM_KERNEL_HEAP cfg \<and> ttype = TCB_FLAG_TTYPE_KERNEL
                     then kmm_free m (stack_alloc_ptr tcb)
                     else kumm_free m (stack_alloc_ptr tcb))
      in (tcb\<lparr>stack_alloc_ptr := 0, adj_stack_ptr := 0, adj_stack_size := 0\<rparr>, m'))"

text \<open>
  \<open>memset(s, c, n)\<close> of the C library: the \<open>n\<close> bytes from \<open>s\<close> on become \<open>c\<close>. An
  address \<open>a\<close> is one of them exactly if \<open>a - s < n\<close> in unsigned 32-bit arithmetic.
\<close>

definition memset :: "machine \<Rightarrow> uint32_t \<Rightarrow> uint8_t \<Rightarrow> size_t \<Rightarrow> machine" where
  "memset m s c n = m\<lparr>memory := (\<lambda>a. if a - s < n then c else memory m a)\<rparr>"

text \<open>\<open>serr\<close> writes a debug message; only the size it reports is kept.\<close>

definition serr :: "machine \<Rightarrow> size_t \<Rightarrow> machine" where
  "serr m n = m\<lparr>serr_log := serr_log m @ [n]\<rparr>"

text \<open>\<open>board_autoled_on(LED_STACKCREATED)\<close>.\<close>

definition board_autoled_on :: "machine \<Rightarrow> machine" where
  "board_autoled_on m = m\<lparr>led_stackcreated := True\<rparr>"

section \<open>\<open>up_create_stack\<close>\<close>

text \<open>
  The function of lines 88 to 177, statement by statement: the release of a stack of
  another size (lines 95 to 100), the allocation (lines 104 to 133), and the set-up of
  the descriptor (lines 137 to 174), or \<open>ERROR\<close> (line 176).
\<close>

definition up_create_stack ::
  "config \<Rightarrow> tcb_s \<Rightarrow> machine \<Rightarrow> size_t \<Rightarrow> ttype \<Rightarrow> result \<times> tcb_s \<times> machine" where
  "up_create_stack cfg tcb0 m0 stack_size ttype =
     (let (tcb1, m1) =
            (if stack_alloc_ptr tcb0 \<noteq> 0 \<and> adj_stack_size tcb0 \<noteq> stack_size
             then up_release_stack cfg tcb0 m0 ttype
             else (tcb0, m0));
          (tcb2, m2) =
            (if stack_alloc_ptr tcb1 = 0
             then (let (p, ma) =
                         (if CONFIG_MM_KERNEL_HEAP cfg \<and> ttype = TCB_FLAG_TTYPE_KERNEL
                          then kmm_malloc m1 stack_size
                          else kumm_malloc m1 stack_size);
                       mb = (if CONFIG_DEBUG_FEATURES cfg \<and> p = 0
                             then serr ma stack_size else ma)
                   in (tcb1\<lparr>stack_alloc_ptr := p\<rparr>, mb))
             else (tcb1, m1))
      in if stack_alloc_ptr tcb2 \<noteq> 0
         then (let m3 = (if CONFIG_STACK_COLORATION cfg
                         then memset m2 (stack_alloc_ptr tcb2) 0xaa stack_size
                         else m2);
                   top_of_stack = stack_alloc_ptr tcb2 + stack_size - 4;
                   top_of_stack = top_of_stack AND NOT 3;
                   size_of_stack = top_of_stack - stack_alloc_ptr tcb2 + 4
               in (OK,
                   tcb2\<lparr>adj_stack_ptr := top_of_stack, adj_stack_size := size_of_stack\<rparr>,
                   board_autoled_on m3))
         else (ERROR, tcb2, m2))"

section \<open>Concrete builds, descriptors and machines\<close>

text \<open>
  A flat build (no kernel heap, no debug output, no stack coloration), a build with stack
  coloration only, and a protected build with a kernel heap and debug output.
\<close>

definition flat_build :: config where
  "flat_build = \<lparr>CONFIG_MM_KERNEL_HEAP = False, CONFIG_DEBUG_FEATURES = False,
                  CONFIG_STACK_COLORATION = False\<rparr>"

definition coloured_build :: config where
  "coloured_build = \<lparr>CONFIG_MM_KERNEL_HEAP = False, CONFIG_DEBUG_FEATURES = False,
                      CONFIG_STACK_COLORATION = True\<rparr>"

definition protected_build :: config where
  "protected_build = \<lparr>CONFIG_MM_KERNEL_HEAP = True, CONFIG_DEBUG_FEATURES = True,
                       CONFIG_STACK_COLORATION = False\<rparr>"

text \<open>A descriptor that holds no stack.\<close>

definition no_stack :: tcb_s where
  "no_stack = \<lparr>stack_alloc_ptr = 0, adj_stack_ptr = 0, adj_stack_size = 0\<rparr>"

text \<open>
  A machine with zeroed memory on which nothing was called yet; \<open>ks\<close> and \<open>us\<close> are
  what the kernel heap and the user heap will hand out.
\<close>

definition boot :: "uint32_t list \<Rightarrow> uint32_t list \<Rightarrow> machine" where
  "boot ks us = \<lparr>memory = (\<lambda>a. 0), kmm_supply = ks, kumm_supply = us, heap_calls = [],
                 serr_log = [], led_stackcreated = False\<rparr>"

text \<open>The descriptor and the machine that a call returns.\<close>

definition tcb_of :: "result \<times> tcb_s \<times> machine \<Rightarrow> tcb_s" where
  "tcb_of x = fst (snd x)"

definition machine_of :: "result \<times> tcb_s \<times> machine \<Rightarrow> machine" where
  "machine_of x = snd (snd x)"

text \<open>
  The descriptor that a create of 512 bytes leaves when the heap hands out \<open>0x1000\<close>
  (Scenario A of the specification).
\<close>

definition held_512 :: tcb_s where
  "held_512 = \<lparr>stack_alloc_ptr = 0x1000, adj_stack_ptr = 0x11FC, adj_stack_size = 512\<rparr>"

text \<open>
  A first create of 510 bytes for a task on a flat build, and a first create of 1022
  bytes for a kernel thread on a protected build. Neither size is a multiple of 4.
\<close>

definition first_510 :: "result \<times> tcb_s \<times> machine" where
  "first_510 =
     up_create_stack flat_build no_stack (boot [] [0x1000, 0x2000]) 510 TCB_FLAG_TTYPE_TASK"

definition first_1022 :: "result \<times> tcb_s \<times> machine" where
  "first_1022 =
     up_create_stack protected_build no_stack (boot [0x4000, 0x5000] []) 1022
       TCB_FLAG_TTYPE_KERNEL"

section \<open>Arithmetic of the alignment\<close>

lemmas create_defs = up_create_stack_def up_release_stack_def kmm_malloc_def kumm_malloc_def
  kmm_free_def kumm_free_def memset_def serr_def board_autoled_on_def Let_def

lemmas scene_defs = flat_build_def coloured_build_def protected_build_def no_stack_def boot_def

lemmas run_defs = tcb_of_def machine_of_def held_512_def first_510_def first_1022_def

lemma three_mask: "(3::32 word) = mask 2"
  by (simp add: mask_eq_exp_minus_1)

lemma and_not_mask_push: "(x::'a::len word) AND NOT (mask n) = push_bit n (drop_bit n x)"
  by (rule bit_word_eqI) (auto simp: bit_simps)

lemma and_not3: "(x::32 word) AND NOT 3 = x - (x AND 3)"
proof -
  have "push_bit 2 (drop_bit 2 x) + take_bit 2 x = x" by (rule bits_ident)
  then have "(x AND NOT (mask 2)) + (x AND mask 2) = x"
    by (simp only: and_not_mask_push take_bit_eq_mask)
  then have "x AND NOT (mask 2) = x - (x AND mask 2)"
    by (simp add: algebra_simps)
  then show ?thesis by (simp only: three_mask)
qed

lemma unat_and3: "unat ((x::32 word) AND 3) = unat x mod 4"
proof -
  have "x AND 3 = x mod 4"
    by (simp only: three_mask flip: take_bit_eq_mask) (simp add: take_bit_eq_mod)
  then show ?thesis by (simp add: unat_mod)
qed

lemma and3_le3: "(x::32 word) AND 3 \<le> 3"
  by (rule word_and_le1)

lemma small_and3: "(n::32 word) < 4 \<Longrightarrow> n AND 3 = n"
  using less_mask_eq[of n 2] by (simp add: three_mask)

lemma low_bits: "((b::32 word) + s - 4) AND 3 = (b + s) AND 3"
proof -
  have "(4::32 word) AND mask 2 = 0" by (simp add: mask_eq_exp_minus_1)
  then have "(b + s - 4) AND mask 2 = (b + s - 0) AND mask 2"
    using mask_eqs(4)[of "b + s" 4 2] mask_eqs(4)[of "b + s" 0 2] by simp
  then show ?thesis by (simp add: three_mask)
qed

lemma aligned_low_bits: "(b::32 word) AND 3 = 0 \<Longrightarrow> (b + n) AND 3 = n AND 3"
  using mask_eqs(1)[of b 2 n] by (simp add: three_mask)

text \<open>The size line 165 computes is the requested size less the bytes trimmed at the top.\<close>

lemma size_of_stack_eq:
  "((b::32 word) + s - 4 AND NOT 3) - b + 4 = s - ((b + s) AND 3)"
proof -
  have "(b + s - 4 AND NOT 3) = b + s - 4 - ((b + s) AND 3)"
    using and_not3[of "b + s - 4"] low_bits[of b s] by simp
  then show ?thesis by simp
qed

text \<open>Clearing the two low bits rounds down to a multiple of 4.\<close>

lemma round_down: "unat ((x::32 word) AND NOT 3) = (unat x div 4) * 4"
proof -
  have "unat (x AND NOT 3) = unat x - unat (x AND 3)"
    unfolding and_not3 by (rule unat_sub) (rule word_and_le2)
  then show ?thesis by (simp add: unat_and3 minus_mod_eq_div_mult)
qed

text \<open>Trimming at most three bytes from a size of at least three, or four.\<close>

lemma trim_le: "(3::32 word) \<le> n \<Longrightarrow> t \<le> 3 \<Longrightarrow> n - t \<le> n"
  by (rule word_sub_le) (rule order_trans)

lemma trim_pos: "(4::32 word) \<le> n \<Longrightarrow> t \<le> 3 \<Longrightarrow> 0 < n - t"
proof -
  assume "4 \<le> n" "t \<le> 3"
  then have "unat t < unat n" by (simp add: word_le_nat_alt)
  then have "n - t \<noteq> 0" by auto
  then show ?thesis by (simp add: word_gt_0)
qed

text \<open>
  A region of at least 8 bytes that fits the address space: the trimmed top word lies in
  it, and the trimmed size ends where the top word ends.
\<close>

lemma top_in_region:
  fixes b n t :: "32 word"
  assumes n: "8 \<le> n" and t: "t \<le> 3" and fit: "unat b + unat n \<le> 2 ^ 32"
  shows "b \<le> b + n - 4 - t \<and> unat (b + n - 4 - t) + 4 = unat b + unat (n - t) \<and>
         unat b + unat (n - t) \<le> unat b + unat n"
proof -
  have un: "8 \<le> unat n" using n by (simp add: word_le_nat_alt)
  have ut: "unat t \<le> 3" using t by (simp add: word_le_nat_alt)
  have "t \<le> n" using un ut by (simp add: word_le_nat_alt)
  then have nt: "unat (n - t) = unat n - unat t" by (rule unat_sub)
  have "4 \<le> n - t" using nt un ut by (simp add: word_le_nat_alt)
  then have nt4: "unat (n - t - 4) = unat n - unat t - 4" using nt by (simp add: unat_sub)
  have "unat b + unat (n - t - 4) < 2 ^ 32" using nt4 fit un ut by simp
  then have "unat (b + (n - t - 4)) = unat b + unat (n - t - 4)"
    using unat_add_lem[of b "n - t - 4"] by simp
  moreover have "b + (n - t - 4) = b + n - 4 - t" by simp
  ultimately have top: "unat (b + n - 4 - t) = unat b + (unat n - unat t - 4)"
    using nt4 by simp
  show ?thesis using top nt un ut by (simp add: word_le_nat_alt)
qed

text \<open>
  A size of 1, 2 or 3 bytes: the trimmed top lies 1 to 6 bytes before the base, and is no
  address of the region.
\<close>

lemma small_outside:
  fixes b n t :: "32 word"
  assumes "0 < n" "n < 4" "t \<le> 3"
  shows "\<not> (b + n - 4 - t - b < n) \<and> 1 \<le> unat (b - (b + n - 4 - t)) \<and>
         unat (b - (b + n - 4 - t)) \<le> 6"
proof -
  have un: "0 < unat n" "unat n < 4" using assms(1,2) by (simp_all add: word_less_nat_alt)
  have ut: "unat t \<le> 3" using assms(3) by (simp add: word_le_nat_alt)
  have 1: "b + n - 4 - t - b = n - (4 + t)" by simp
  have 2: "b - (b + n - 4 - t) = 4 + t - n" by simp
  have s: "unat (4 + t) = 4 + unat t" using ut unat_add_lem[of 4 t] by simp
  have "n \<le> 4 + t" using s un by (simp add: word_le_nat_alt)
  then have d: "unat (4 + t - n) = 4 + unat t - unat n" using s by (simp add: unat_sub)
  have "unat (n - (4 + t)) = unat n + 2 ^ 32 - (4 + unat t)"
    using s un by (simp add: unat_sub_if')
  then have "unat n \<le> unat (n - (4 + t))" using un ut by simp
  then have "\<not> (n - (4 + t) < n)" by (simp add: word_less_nat_alt)
  moreover have "1 \<le> 4 + unat t - unat n \<and> 4 + unat t - unat n \<le> 6"
    using un ut by arith
  ultimately show ?thesis unfolding 1 2 using d by simp
qed

lemma below:
  fixes b p :: "32 word"
  assumes "1 \<le> unat (b - p)" "unat (b - p) \<le> 6" "6 \<le> unat b"
  shows "p < b"
proof -
  have "b - p \<le> b" using assms by (simp add: word_le_nat_alt)
  then have "unat (b - (b - p)) = unat b - unat (b - p)" by (rule unat_sub)
  then have "unat p < unat b" using assms by simp
  then show ?thesis by (simp add: word_less_nat_alt)
qed

section \<open>What one call of \<open>up_create_stack\<close> does\<close>

lemma create_OK_iff:
  "up_create_stack cfg tcb m n tt = (r, tcb', m') \<Longrightarrow> (r = OK) = (stack_alloc_ptr tcb' \<noteq> 0)"
  by (auto simp: create_defs split: if_splits prod.splits)

lemma create_adjusted:
  "up_create_stack cfg tcb m n tt = (OK, tcb', m') \<Longrightarrow>
     adj_stack_ptr tcb' = (stack_alloc_ptr tcb' + n - 4) AND NOT 3 \<and>
     adj_stack_size tcb' = adj_stack_ptr tcb' - stack_alloc_ptr tcb' + 4"
  by (auto simp: create_defs split: if_splits prod.splits)

lemma create_base:
  "up_create_stack cfg tcb m n tt = (r, tcb', m') \<Longrightarrow>
     stack_alloc_ptr tcb' =
       (if stack_alloc_ptr tcb \<noteq> 0 \<and> adj_stack_size tcb = n then stack_alloc_ptr tcb
        else if CONFIG_MM_KERNEL_HEAP cfg \<and> tt = TCB_FLAG_TTYPE_KERNEL
             then next_region (kmm_supply m) else next_region (kumm_supply m))"
  by (auto simp: create_defs split: if_splits prod.splits)

lemma create_calls:
  "up_create_stack cfg tcb m n tt = (r, tcb', m') \<Longrightarrow>
     heap_calls m' = heap_calls m @
       (if stack_alloc_ptr tcb \<noteq> 0 \<and> adj_stack_size tcb = n then []
        else (if stack_alloc_ptr tcb \<noteq> 0
              then [Free (if CONFIG_MM_KERNEL_HEAP cfg \<and> tt = TCB_FLAG_TTYPE_KERNEL
                          then KMM else KUMM) (stack_alloc_ptr tcb)]
              else []) @
             [Malloc (if CONFIG_MM_KERNEL_HEAP cfg \<and> tt = TCB_FLAG_TTYPE_KERNEL
                      then KMM else KUMM) n (stack_alloc_ptr tcb')])"
  by (auto simp: create_defs split: if_splits prod.splits)

lemma create_memory:
  "up_create_stack cfg tcb m n tt = (r, tcb', m') \<Longrightarrow>
     memory m' = (if r = OK \<and> CONFIG_STACK_COLORATION cfg
                  then (\<lambda>a. if a - stack_alloc_ptr tcb' < n then 0xaa else memory m a)
                  else memory m)"
  by (auto simp: create_defs split: if_splits prod.splits)

lemma create_size:
  assumes "up_create_stack cfg tcb m n tt = (OK, tcb', m')"
  shows "adj_stack_size tcb' = n - ((stack_alloc_ptr tcb' + n) AND 3)"
  using create_adjusted[OF assms] size_of_stack_eq[of "stack_alloc_ptr tcb'" n] by simp

lemma create_top:
  assumes "up_create_stack cfg tcb m n tt = (OK, tcb', m')"
  shows "adj_stack_ptr tcb' = stack_alloc_ptr tcb' + n - 4 - ((stack_alloc_ptr tcb' + n) AND 3)"
  using create_adjusted[OF assms] and_not3[of "stack_alloc_ptr tcb' + n - 4"]
    low_bits[of "stack_alloc_ptr tcb'" n] by simp

section \<open>The claims\<close>

subsection \<open>C1: where the top word and the size are put\<close>

text \<open>
  C1. On every successful create, the adjusted stack pointer written to the descriptor
  is \<open>raw_base + requested_size - 4\<close> (in 32-bit arithmetic) rounded down to a multiple of
  4, and the adjusted size written is that rounded top minus \<open>raw_base\<close> plus 4.
\<close>

theorem create_places_top_word:
  assumes "up_create_stack cfg tcb m n tt = (OK, tcb', m')"
  shows "unat (adj_stack_ptr tcb') = (unat (stack_alloc_ptr tcb' + n - 4) div 4) * 4 \<and>
         adj_stack_size tcb' = adj_stack_ptr tcb' - stack_alloc_ptr tcb' + 4"
  using create_adjusted[OF assms] round_down[of "stack_alloc_ptr tcb' + n - 4"] by simp

text \<open>Scenario A: 512 bytes at \<open>0x1000\<close> give the top word \<open>0x11FC\<close> and the size 512.\<close>

theorem create_places_top_word_witness:
  "up_create_stack flat_build no_stack (boot [] [0x1000]) 512 TCB_FLAG_TTYPE_TASK =
     (OK, \<lparr>stack_alloc_ptr = 0x1000, adj_stack_ptr = 0x11FC, adj_stack_size = 512\<rparr>,
      (boot [] [])\<lparr>heap_calls := [Malloc KUMM 512 0x1000], led_stackcreated := True\<rparr>) \<and>
   unat (0x11FC :: uint32_t) = (unat (0x1000 + 512 - 4 :: uint32_t) div 4) * 4 \<and>
   (512 :: size_t) = 0x11FC - 0x1000 + 4"
proof -
  have run: "up_create_stack flat_build no_stack (boot [] [0x1000]) 512 TCB_FLAG_TTYPE_TASK =
     (OK, \<lparr>stack_alloc_ptr = 0x1000, adj_stack_ptr = 0x11FC, adj_stack_size = 512\<rparr>,
      (boot [] [])\<lparr>heap_calls := [Malloc KUMM 512 0x1000], led_stackcreated := True\<rparr>)"
    by (simp add: create_defs scene_defs)
  have "unat (0x11FC :: uint32_t) = (unat (0x1000 + 512 - 4 :: uint32_t) div 4) * 4 \<and>
        (512 :: size_t) = 0x11FC - 0x1000 + 4"
    using create_places_top_word[OF run] by simp
  then show ?thesis using run by blast
qed

subsection \<open>C2: which creates fill the stack\<close>

text \<open>
  C2, as the code has it. With stack coloration compiled in, every create that returns
  \<open>OK\<close> fills the \<open>stack_size\<close> bytes from \<open>stack_alloc_ptr\<close> on with \<open>0xAA\<close>, whether
  the region was allocated by this call or is reused in place; every other byte, and
  every byte when the call fails or coloration is compiled out, is left as it was.
\<close>

theorem coloration_on_every_success:
  assumes "up_create_stack cfg tcb m n tt = (r, tcb', m')"
  shows "memory m' a =
           (if r = OK \<and> CONFIG_STACK_COLORATION cfg \<and> a - stack_alloc_ptr tcb' < n
            then 0xAA else memory m a)"
  using create_memory[OF assms] by simp

text \<open>
  The reuse path on a coloured build: the descriptor holds 512 bytes at \<open>0x1000\<close> and 512
  bytes are requested again. The last byte of the region is filled, the byte after it
  is not.
\<close>

theorem coloration_on_every_success_witness:
  "up_create_stack coloured_build held_512 (boot [] []) 512 TCB_FLAG_TTYPE_TASK =
     (OK, held_512,
      (boot [] [])\<lparr>memory := (\<lambda>a. if a - 0x1000 < 512 then 0xAA else 0),
                    led_stackcreated := True\<rparr>) \<and>
   memory ((boot [] [])\<lparr>memory := (\<lambda>a. if a - 0x1000 < 512 then 0xAA else 0),
                         led_stackcreated := True\<rparr>) 0x11FF = 0xAA \<and>
   memory ((boot [] [])\<lparr>memory := (\<lambda>a. if a - 0x1000 < 512 then 0xAA else 0),
                         led_stackcreated := True\<rparr>) 0x1200 = memory (boot [] []) 0x1200"
proof -
  have run: "up_create_stack coloured_build held_512 (boot [] []) 512 TCB_FLAG_TTYPE_TASK =
     (OK, held_512,
      (boot [] [])\<lparr>memory := (\<lambda>a. if a - 0x1000 < 512 then 0xAA else 0),
                    led_stackcreated := True\<rparr>)"
    by (simp add: create_defs scene_defs run_defs fun_eq_iff)
  show ?thesis
    using run coloration_on_every_success[OF run, of "0x11FF"]
      coloration_on_every_success[OF run, of "0x1200"]
    by (simp add: scene_defs run_defs)
qed

text \<open>
  C2 as stated fails. The descriptor holds 512 bytes at \<open>0x1000\<close>, all of memory is zero,
  and 512 bytes are requested again on a coloured build: no heap is called, the base
  stays, and the byte at \<open>0x1000\<close> changes from \<open>0\<close> to \<open>0xAA\<close>.
\<close>

theorem reuse_refills_counterexample:
  "fst (up_create_stack coloured_build held_512 (boot [] []) 512 TCB_FLAG_TTYPE_TASK) = OK \<and>
   heap_calls (machine_of
     (up_create_stack coloured_build held_512 (boot [] []) 512 TCB_FLAG_TTYPE_TASK)) =
     heap_calls (boot [] []) \<and>
   stack_alloc_ptr (tcb_of
     (up_create_stack coloured_build held_512 (boot [] []) 512 TCB_FLAG_TTYPE_TASK)) =
     stack_alloc_ptr held_512 \<and>
   memory (boot [] []) 0x1000 = 0 \<and>
   memory (machine_of
     (up_create_stack coloured_build held_512 (boot [] []) 512 TCB_FLAG_TTYPE_TASK)) 0x1000 = 0xAA"
  by (simp add: create_defs scene_defs run_defs)

subsection \<open>C3: the same request again\<close>

text \<open>
  C3, as the code has it. A descriptor holds a stack that create allocated for some
  requested size, and \<open>base + requested size\<close> is a multiple of 4, so that the adjusted
  size recorded is the requested size. Then a create with the same requested size
  returns \<open>OK\<close>, calls no heap and leaves \<open>stack_alloc_ptr\<close> as it is.
\<close>

theorem same_request_reuses:
  assumes first: "up_create_stack cfg tcb m n tt = (OK, tcb', m')"
    and again: "up_create_stack cfg2 tcb' m' n tt2 = (r2, tcb2, m2)"
    and aligned: "(stack_alloc_ptr tcb' + n) AND 3 = 0"
  shows "r2 = OK \<and> heap_calls m2 = heap_calls m' \<and> stack_alloc_ptr tcb2 = stack_alloc_ptr tcb'"
proof -
  have same: "adj_stack_size tcb' = n" using create_size[OF first] aligned by simp
  have live: "stack_alloc_ptr tcb' \<noteq> 0" using create_OK_iff[OF first] by simp
  have base: "stack_alloc_ptr tcb2 = stack_alloc_ptr tcb'"
    using create_base[OF again] same live by simp
  have calls: "heap_calls m2 = heap_calls m'"
    using create_calls[OF again] same live by simp
  have "r2 = OK" using create_OK_iff[OF again] base live by simp
  then show ?thesis using calls base by simp
qed

text \<open>Scenarios A and B: 512 bytes at \<open>0x1000\<close>, and 512 bytes again.\<close>

theorem same_request_reuses_witness:
  "up_create_stack flat_build no_stack (boot [] [0x1000, 0x2000]) 512 TCB_FLAG_TTYPE_TASK =
     (OK, held_512,
      (boot [] [0x2000])\<lparr>heap_calls := [Malloc KUMM 512 0x1000], led_stackcreated := True\<rparr>) \<and>
   (stack_alloc_ptr held_512 + 512) AND 3 = 0 \<and>
   up_create_stack flat_build held_512
       ((boot [] [0x2000])\<lparr>heap_calls := [Malloc KUMM 512 0x1000], led_stackcreated := True\<rparr>)
       512 TCB_FLAG_TTYPE_TASK =
     (OK, held_512,
      (boot [] [0x2000])\<lparr>heap_calls := [Malloc KUMM 512 0x1000], led_stackcreated := True\<rparr>)"
proof -
  have first: "up_create_stack flat_build no_stack (boot [] [0x1000, 0x2000]) 512
       TCB_FLAG_TTYPE_TASK =
     (OK, held_512,
      (boot [] [0x2000])\<lparr>heap_calls := [Malloc KUMM 512 0x1000], led_stackcreated := True\<rparr>)"
    by (simp add: create_defs scene_defs run_defs)
  have aligned: "(stack_alloc_ptr held_512 + 512) AND 3 = 0"
    by (simp add: run_defs)
  have again: "up_create_stack flat_build held_512
       ((boot [] [0x2000])\<lparr>heap_calls := [Malloc KUMM 512 0x1000], led_stackcreated := True\<rparr>)
       512 TCB_FLAG_TTYPE_TASK =
     (OK, held_512,
      (boot [] [0x2000])\<lparr>heap_calls := [Malloc KUMM 512 0x1000], led_stackcreated := True\<rparr>)"
    by (simp add: create_defs scene_defs run_defs)
  show ?thesis
    using first aligned again same_request_reuses[OF first again aligned] by blast
qed

text \<open>
  C3 as stated fails at a size that is no multiple of 4. A first create of 510 bytes at
  \<open>0x1000\<close> records the adjusted size 508. Line 95 compares that 508 with the 510
  requested again, so the second create frees \<open>0x1000\<close> and allocates anew: the base
  becomes \<open>0x2000\<close>.
\<close>

theorem same_request_reallocates_counterexample:
  "first_510 =
     (OK, \<lparr>stack_alloc_ptr = 0x1000, adj_stack_ptr = 0x11F8, adj_stack_size = 508\<rparr>,
      (boot [] [0x2000])\<lparr>heap_calls := [Malloc KUMM 510 0x1000], led_stackcreated := True\<rparr>) \<and>
   up_create_stack flat_build (tcb_of first_510) (machine_of first_510) 510 TCB_FLAG_TTYPE_TASK =
     (OK, \<lparr>stack_alloc_ptr = 0x2000, adj_stack_ptr = 0x21F8, adj_stack_size = 508\<rparr>,
      (boot [] [])\<lparr>heap_calls := [Malloc KUMM 510 0x1000, Free KUMM 0x1000,
                                    Malloc KUMM 510 0x2000],
                    led_stackcreated := True\<rparr>)"
  by (simp add: create_defs scene_defs run_defs)

subsection \<open>C4: the usable span and the allocated region\<close>

text \<open>
  C4, as the code has it. For a requested size of at least 8 bytes and an allocated
  region that fits the address space, the span of \<open>adj_stack_size\<close> bytes from
  \<open>stack_alloc_ptr\<close> on lies within the allocated region, and \<open>adj_stack_ptr\<close> is the
  address of the last word of that span: it is not below the base, and the span ends 4
  bytes after it.
\<close>

theorem usable_span_in_region:
  assumes run: "up_create_stack cfg tcb m n tt = (OK, tcb', m')"
    and big: "8 \<le> n"
    and fit: "unat (stack_alloc_ptr tcb') + unat n \<le> 2 ^ 32"
  shows "stack_alloc_ptr tcb' \<le> adj_stack_ptr tcb' \<and>
         unat (adj_stack_ptr tcb') + 4 =
           unat (stack_alloc_ptr tcb') + unat (adj_stack_size tcb') \<and>
         unat (stack_alloc_ptr tcb') + unat (adj_stack_size tcb') \<le>
           unat (stack_alloc_ptr tcb') + unat n"
  using top_in_region[OF big and3_le3 fit, of "stack_alloc_ptr tcb' + n"]
  by (simp only: create_size[OF run] create_top[OF run])

text \<open>The smallest size, at a base that is not aligned: 8 bytes at \<open>0x1001\<close>.\<close>

theorem usable_span_in_region_witness:
  "up_create_stack flat_build no_stack (boot [] [0x1001]) 8 TCB_FLAG_TTYPE_PTHREAD =
     (OK, \<lparr>stack_alloc_ptr = 0x1001, adj_stack_ptr = 0x1004, adj_stack_size = 7\<rparr>,
      (boot [] [])\<lparr>heap_calls := [Malloc KUMM 8 0x1001], led_stackcreated := True\<rparr>) \<and>
   (8 :: size_t) \<le> 8 \<and> unat (0x1001 :: uint32_t) + unat (8 :: size_t) \<le> 2 ^ 32 \<and>
   (0x1001 :: uint32_t) \<le> 0x1004 \<and>
   unat (0x1004 :: uint32_t) + 4 = unat (0x1001 :: uint32_t) + unat (7 :: size_t) \<and>
   unat (0x1001 :: uint32_t) + unat (7 :: size_t) \<le> unat (0x1001 :: uint32_t) + unat (8 :: size_t)"
proof -
  have run: "up_create_stack flat_build no_stack (boot [] [0x1001]) 8 TCB_FLAG_TTYPE_PTHREAD =
     (OK, \<lparr>stack_alloc_ptr = 0x1001, adj_stack_ptr = 0x1004, adj_stack_size = 7\<rparr>,
      (boot [] [])\<lparr>heap_calls := [Malloc KUMM 8 0x1001], led_stackcreated := True\<rparr>)"
    by (simp add: create_defs scene_defs)
  have big: "(8 :: size_t) \<le> 8" by simp
  have fit: "unat (stack_alloc_ptr \<lparr>stack_alloc_ptr = 0x1001, adj_stack_ptr = 0x1004,
                adj_stack_size = 7\<rparr>) + unat (8 :: size_t) \<le> 2 ^ 32" by simp
  show ?thesis using run usable_span_in_region[OF run big fit] by simp
qed

text \<open>
  C4 as stated fails. In Scenario A the adjusted pointer is \<open>0x11FC\<close> and the adjusted
  size is 512, so the 512 bytes from the adjusted pointer on end at \<open>0x13FC\<close>, past the
  end \<open>0x1200\<close> of the allocated region.
\<close>

theorem span_past_region_counterexample:
  "fst (up_create_stack flat_build no_stack (boot [] [0x1000]) 512 TCB_FLAG_TTYPE_TASK) = OK \<and>
   \<not> (unat (adj_stack_ptr (tcb_of
          (up_create_stack flat_build no_stack (boot [] [0x1000]) 512 TCB_FLAG_TTYPE_TASK))) +
        unat (adj_stack_size (tcb_of
          (up_create_stack flat_build no_stack (boot [] [0x1000]) 512 TCB_FLAG_TTYPE_TASK)))
      \<le> unat (stack_alloc_ptr (tcb_of
          (up_create_stack flat_build no_stack (boot [] [0x1000]) 512 TCB_FLAG_TTYPE_TASK))) +
        unat (512 :: size_t))"
  by (simp add: create_defs scene_defs run_defs)

subsection \<open>C5: when the old stack is released\<close>

text \<open>
  C5, as the code has it. A call of create releases the stack the descriptor holds
  exactly if the descriptor holds one and the adjusted size recorded in it differs from
  the size now requested; the release comes first and is followed by exactly one
  allocation of the requested size from the heap the thread type selects. A descriptor
  without a stack gets that one allocation alone, and a descriptor whose recorded
  adjusted size equals the request causes no call. So a create of \<open>s1\<close> followed by a
  create of a size different from the adjusted size recorded for \<open>s1\<close> releases the first
  region once and allocates one new region of the new size.
\<close>

theorem release_rule:
  assumes run: "up_create_stack cfg tcb m n tt = (r, tcb', m')"
  shows "heap_calls m' = heap_calls m @
           (if stack_alloc_ptr tcb \<noteq> 0 \<and> adj_stack_size tcb \<noteq> n
            then [Free (if CONFIG_MM_KERNEL_HEAP cfg \<and> tt = TCB_FLAG_TTYPE_KERNEL
                        then KMM else KUMM) (stack_alloc_ptr tcb),
                  Malloc (if CONFIG_MM_KERNEL_HEAP cfg \<and> tt = TCB_FLAG_TTYPE_KERNEL
                          then KMM else KUMM) n (stack_alloc_ptr tcb')]
            else if stack_alloc_ptr tcb = 0
            then [Malloc (if CONFIG_MM_KERNEL_HEAP cfg \<and> tt = TCB_FLAG_TTYPE_KERNEL
                          then KMM else KUMM) n (stack_alloc_ptr tcb')]
            else []) \<and>
         (up_create_stack cfg0 tcb0 m0 s1 tt0 = (OK, tcb, m) \<and> n \<noteq> adj_stack_size tcb \<longrightarrow>
            heap_calls m' = heap_calls m @
              [Free (if CONFIG_MM_KERNEL_HEAP cfg \<and> tt = TCB_FLAG_TTYPE_KERNEL
                     then KMM else KUMM) (stack_alloc_ptr tcb),
               Malloc (if CONFIG_MM_KERNEL_HEAP cfg \<and> tt = TCB_FLAG_TTYPE_KERNEL
                       then KMM else KUMM) n (stack_alloc_ptr tcb')])"
proof -
  have live: "stack_alloc_ptr tcb \<noteq> 0" if "up_create_stack cfg0 tcb0 m0 s1 tt0 = (OK, tcb, m)"
    using create_OK_iff[OF that] by simp
  show ?thesis using create_calls[OF run] live by auto
qed

text \<open>Scenario C: 512 bytes, then 1024 bytes.\<close>

theorem release_rule_witness:
  "up_create_stack flat_build no_stack (boot [] [0x1000, 0x2000]) 512 TCB_FLAG_TTYPE_TASK =
     (OK, held_512,
      (boot [] [0x2000])\<lparr>heap_calls := [Malloc KUMM 512 0x1000], led_stackcreated := True\<rparr>) \<and>
   (1024 :: size_t) \<noteq> adj_stack_size held_512 \<and>
   up_create_stack flat_build held_512
       ((boot [] [0x2000])\<lparr>heap_calls := [Malloc KUMM 512 0x1000], led_stackcreated := True\<rparr>)
       1024 TCB_FLAG_TTYPE_TASK =
     (OK, \<lparr>stack_alloc_ptr = 0x2000, adj_stack_ptr = 0x23FC, adj_stack_size = 1024\<rparr>,
      (boot [] [])\<lparr>heap_calls := [Malloc KUMM 512 0x1000, Free KUMM 0x1000,
                                    Malloc KUMM 1024 0x2000],
                    led_stackcreated := True\<rparr>)"
proof -
  have first: "up_create_stack flat_build no_stack (boot [] [0x1000, 0x2000]) 512
       TCB_FLAG_TTYPE_TASK =
     (OK, held_512,
      (boot [] [0x2000])\<lparr>heap_calls := [Malloc KUMM 512 0x1000], led_stackcreated := True\<rparr>)"
    by (simp add: create_defs scene_defs run_defs)
  have other: "(1024 :: size_t) \<noteq> adj_stack_size held_512"
    by (simp add: run_defs)
  have second: "up_create_stack flat_build held_512
       ((boot [] [0x2000])\<lparr>heap_calls := [Malloc KUMM 512 0x1000], led_stackcreated := True\<rparr>)
       1024 TCB_FLAG_TTYPE_TASK =
     (OK, \<lparr>stack_alloc_ptr = 0x2000, adj_stack_ptr = 0x23FC, adj_stack_size = 1024\<rparr>,
      (boot [] [])\<lparr>heap_calls := [Malloc KUMM 512 0x1000, Free KUMM 0x1000,
                                    Malloc KUMM 1024 0x2000],
                    led_stackcreated := True\<rparr>)"
    by (simp add: create_defs scene_defs run_defs)
  show ?thesis
    using first other second
      release_rule[OF second, of flat_build no_stack "boot [] [0x1000, 0x2000]" 512
        TCB_FLAG_TTYPE_TASK]
    by blast
qed

text \<open>
  C5 as stated fails in its second half. After a create of 510 bytes the recorded
  adjusted size is 508; a create of 508 bytes, a size other than 510, then releases
  nothing and allocates nothing.
\<close>

theorem other_size_reuses_counterexample:
  "(510 :: size_t) \<noteq> 508 \<and> fst first_510 = OK \<and>
   fst (up_create_stack flat_build (tcb_of first_510) (machine_of first_510) 508
          TCB_FLAG_TTYPE_TASK) = OK \<and>
   heap_calls (machine_of
     (up_create_stack flat_build (tcb_of first_510) (machine_of first_510) 508
        TCB_FLAG_TTYPE_TASK)) = heap_calls (machine_of first_510) \<and>
   heap_calls (machine_of first_510) = [Malloc KUMM 510 0x1000]"
  by (simp add: create_defs scene_defs run_defs)

subsection \<open>C6: a failed allocation\<close>

text \<open>
  C6. Whenever create needs a new allocation (the descriptor holds no stack, or holds
  one whose recorded size differs from the request and which is therefore released
  first) and the heap selected for the thread type hands out no memory, create returns
  \<open>ERROR\<close> and the descriptor's \<open>stack_alloc_ptr\<close> is null afterwards.
\<close>

theorem failed_allocation_leaves_no_stack:
  assumes run: "up_create_stack cfg tcb m n tt = (r, tcb', m')"
    and needed: "stack_alloc_ptr tcb = 0 \<or> adj_stack_size tcb \<noteq> n"
    and nomem: "next_region (if CONFIG_MM_KERNEL_HEAP cfg \<and> tt = TCB_FLAG_TTYPE_KERNEL
                             then kmm_supply m else kumm_supply m) = 0"
  shows "r = ERROR \<and> stack_alloc_ptr tcb' = 0"
proof -
  have "stack_alloc_ptr tcb' = 0"
    using create_base[OF run] needed nomem by (auto split: if_splits)
  moreover from this have "r \<noteq> OK" using create_OK_iff[OF run] by simp
  ultimately show ?thesis by (cases r) simp_all
qed

text \<open>
  Scenario D, a kernel thread of 256 bytes on an empty kernel heap; and a descriptor that
  holds 512 bytes, asked for 1024 bytes on an empty user heap: the old region is freed,
  the allocation fails, and the descriptor holds nothing.
\<close>

theorem failed_allocation_leaves_no_stack_witness:
  "up_create_stack protected_build no_stack (boot [] [0x1000]) 256 TCB_FLAG_TTYPE_KERNEL =
     (ERROR, no_stack,
      (boot [] [0x1000])\<lparr>heap_calls := [Malloc KMM 256 0], serr_log := [256]\<rparr>) \<and>
   up_create_stack flat_build held_512 (boot [0x4000] []) 1024 TCB_FLAG_TTYPE_PTHREAD =
     (ERROR, no_stack,
      (boot [0x4000] [])\<lparr>heap_calls := [Free KUMM 0x1000, Malloc KUMM 1024 0]\<rparr>) \<and>
   stack_alloc_ptr held_512 \<noteq> 0 \<and> adj_stack_size held_512 \<noteq> 1024 \<and>
   stack_alloc_ptr no_stack = 0"
proof -
  have fresh: "up_create_stack protected_build no_stack (boot [] [0x1000]) 256
       TCB_FLAG_TTYPE_KERNEL =
     (ERROR, no_stack,
      (boot [] [0x1000])\<lparr>heap_calls := [Malloc KMM 256 0], serr_log := [256]\<rparr>)"
    by (simp add: create_defs scene_defs run_defs)
  have fresh_needed: "stack_alloc_ptr no_stack = 0 \<or> adj_stack_size no_stack \<noteq> 256"
    by (simp add: scene_defs)
  have fresh_nomem: "next_region (if CONFIG_MM_KERNEL_HEAP protected_build \<and>
         TCB_FLAG_TTYPE_KERNEL = TCB_FLAG_TTYPE_KERNEL
       then kmm_supply (boot [] [0x1000]) else kumm_supply (boot [] [0x1000])) = 0"
    by (simp add: scene_defs)
  have again: "up_create_stack flat_build held_512 (boot [0x4000] []) 1024
       TCB_FLAG_TTYPE_PTHREAD =
     (ERROR, no_stack,
      (boot [0x4000] [])\<lparr>heap_calls := [Free KUMM 0x1000, Malloc KUMM 1024 0]\<rparr>)"
    by (simp add: create_defs scene_defs run_defs)
  have again_needed: "stack_alloc_ptr held_512 = 0 \<or> adj_stack_size held_512 \<noteq> 1024"
    by (simp add: run_defs)
  have again_nomem: "next_region (if CONFIG_MM_KERNEL_HEAP flat_build \<and>
         TCB_FLAG_TTYPE_PTHREAD = TCB_FLAG_TTYPE_KERNEL
       then kmm_supply (boot [0x4000] []) else kumm_supply (boot [0x4000] [])) = 0"
    by (simp add: scene_defs)
  show ?thesis
    using fresh again
      failed_allocation_leaves_no_stack[OF fresh fresh_needed fresh_nomem]
      failed_allocation_leaves_no_stack[OF again again_needed again_nomem]
    by (simp add: scene_defs run_defs)
qed

subsection \<open>C7: which heap is asked\<close>

text \<open>
  C7. When create needs a new allocation, its one allocation call goes to the kernel
  heap exactly if the thread type is the kernel thread and the kernel heap is configured,
  and to the user heap in every other case; what the call returns becomes the
  descriptor's \<open>stack_alloc_ptr\<close>. The choice depends on the thread type and the build
  configuration only.
\<close>

theorem allocation_domain_selection:
  assumes run: "up_create_stack cfg tcb m n tt = (r, tcb', m')"
    and needed: "stack_alloc_ptr tcb = 0 \<or> adj_stack_size tcb \<noteq> n"
  shows "heap_calls m' = heap_calls m @
           (if stack_alloc_ptr tcb = 0 then []
            else [Free (if tt = TCB_FLAG_TTYPE_KERNEL \<and> CONFIG_MM_KERNEL_HEAP cfg
                        then KMM else KUMM) (stack_alloc_ptr tcb)]) @
           [Malloc (if tt = TCB_FLAG_TTYPE_KERNEL \<and> CONFIG_MM_KERNEL_HEAP cfg
                    then KMM else KUMM) n (stack_alloc_ptr tcb')] \<and>
         stack_alloc_ptr tcb' =
           next_region (if tt = TCB_FLAG_TTYPE_KERNEL \<and> CONFIG_MM_KERNEL_HEAP cfg
                        then kmm_supply m else kumm_supply m)"
  using create_calls[OF run] create_base[OF run] needed by auto

text \<open>
  A kernel thread and a pthread on a protected build, and a kernel thread on a flat
  build: the first is served by the kernel heap, the other two by the user heap.
\<close>

theorem allocation_domain_selection_witness:
  "up_create_stack protected_build no_stack (boot [0x4000] [0x1000]) 256 TCB_FLAG_TTYPE_KERNEL =
     (OK, \<lparr>stack_alloc_ptr = 0x4000, adj_stack_ptr = 0x40FC, adj_stack_size = 256\<rparr>,
      (boot [] [0x1000])\<lparr>heap_calls := [Malloc KMM 256 0x4000], led_stackcreated := True\<rparr>) \<and>
   up_create_stack protected_build no_stack (boot [0x4000] [0x1000]) 256 TCB_FLAG_TTYPE_PTHREAD =
     (OK, \<lparr>stack_alloc_ptr = 0x1000, adj_stack_ptr = 0x10FC, adj_stack_size = 256\<rparr>,
      (boot [0x4000] [])\<lparr>heap_calls := [Malloc KUMM 256 0x1000], led_stackcreated := True\<rparr>) \<and>
   up_create_stack flat_build no_stack (boot [0x4000] [0x1000]) 256 TCB_FLAG_TTYPE_KERNEL =
     (OK, \<lparr>stack_alloc_ptr = 0x1000, adj_stack_ptr = 0x10FC, adj_stack_size = 256\<rparr>,
      (boot [0x4000] [])\<lparr>heap_calls := [Malloc KUMM 256 0x1000], led_stackcreated := True\<rparr>)"
proof -
  have needed: "stack_alloc_ptr no_stack = 0 \<or> adj_stack_size no_stack \<noteq> 256"
    by (simp add: scene_defs)
  have k: "up_create_stack protected_build no_stack (boot [0x4000] [0x1000]) 256
       TCB_FLAG_TTYPE_KERNEL =
     (OK, \<lparr>stack_alloc_ptr = 0x4000, adj_stack_ptr = 0x40FC, adj_stack_size = 256\<rparr>,
      (boot [] [0x1000])\<lparr>heap_calls := [Malloc KMM 256 0x4000], led_stackcreated := True\<rparr>)"
    by (simp add: create_defs scene_defs)
  have u: "up_create_stack protected_build no_stack (boot [0x4000] [0x1000]) 256
       TCB_FLAG_TTYPE_PTHREAD =
     (OK, \<lparr>stack_alloc_ptr = 0x1000, adj_stack_ptr = 0x10FC, adj_stack_size = 256\<rparr>,
      (boot [0x4000] [])\<lparr>heap_calls := [Malloc KUMM 256 0x1000], led_stackcreated := True\<rparr>)"
    by (simp add: create_defs scene_defs)
  have f: "up_create_stack flat_build no_stack (boot [0x4000] [0x1000]) 256
       TCB_FLAG_TTYPE_KERNEL =
     (OK, \<lparr>stack_alloc_ptr = 0x1000, adj_stack_ptr = 0x10FC, adj_stack_size = 256\<rparr>,
      (boot [0x4000] [])\<lparr>heap_calls := [Malloc KUMM 256 0x1000], led_stackcreated := True\<rparr>)"
    by (simp add: create_defs scene_defs)
  show ?thesis
    using k u f allocation_domain_selection[OF k needed]
      allocation_domain_selection[OF u needed] allocation_domain_selection[OF f needed]
    by blast
qed

subsection \<open>C8: what the descriptor retains\<close>

text \<open>
  C8, as the code has it. After a successful create the descriptor holds the base, the
  adjusted stack pointer and the adjusted size; the requested size itself is not kept.
  The adjusted size kept is the requested size less the low two bits of
  \<open>base + requested size\<close>, so it is the requested size exactly if that sum is a multiple
  of 4. On the next create it is this adjusted size that the new size is compared with:
  the next create calls no heap exactly if its size equals the adjusted size kept.
\<close>

theorem adjusted_size_retained_and_compared:
  assumes first: "up_create_stack cfg tcb m n tt = (OK, tcb', m')"
    and again: "up_create_stack cfg2 tcb' m' n2 tt2 = (r2, tcb2, m2)"
  shows "adj_stack_size tcb' = n - ((stack_alloc_ptr tcb' + n) AND 3) \<and>
         (adj_stack_size tcb' = n) = ((stack_alloc_ptr tcb' + n) AND 3 = 0) \<and>
         (heap_calls m2 = heap_calls m') = (n2 = adj_stack_size tcb')"
proof -
  have sz: "adj_stack_size tcb' = n - ((stack_alloc_ptr tcb' + n) AND 3)"
    by (rule create_size[OF first])
  have live: "stack_alloc_ptr tcb' \<noteq> 0" using create_OK_iff[OF first] by simp
  have cmp: "(heap_calls m2 = heap_calls m') = (n2 = adj_stack_size tcb')"
    using create_calls[OF again] live by auto
  show ?thesis using sz cmp by simp
qed

text \<open>510 bytes at \<open>0x1000\<close> keep the size 508; a request of 508 bytes then reuses the region.\<close>

theorem adjusted_size_retained_and_compared_witness:
  "up_create_stack flat_build no_stack (boot [] [0x1000, 0x2000]) 510 TCB_FLAG_TTYPE_TASK =
     (OK, \<lparr>stack_alloc_ptr = 0x1000, adj_stack_ptr = 0x11F8, adj_stack_size = 508\<rparr>,
      (boot [] [0x2000])\<lparr>heap_calls := [Malloc KUMM 510 0x1000], led_stackcreated := True\<rparr>) \<and>
   up_create_stack flat_build
       \<lparr>stack_alloc_ptr = 0x1000, adj_stack_ptr = 0x11F8, adj_stack_size = 508\<rparr>
       ((boot [] [0x2000])\<lparr>heap_calls := [Malloc KUMM 510 0x1000], led_stackcreated := True\<rparr>)
       508 TCB_FLAG_TTYPE_TASK =
     (OK, \<lparr>stack_alloc_ptr = 0x1000, adj_stack_ptr = 0x11F8, adj_stack_size = 508\<rparr>,
      (boot [] [0x2000])\<lparr>heap_calls := [Malloc KUMM 510 0x1000], led_stackcreated := True\<rparr>) \<and>
   (508 :: size_t) = 510 - ((0x1000 + 510) AND 3)"
proof -
  have first: "up_create_stack flat_build no_stack (boot [] [0x1000, 0x2000]) 510
       TCB_FLAG_TTYPE_TASK =
     (OK, \<lparr>stack_alloc_ptr = 0x1000, adj_stack_ptr = 0x11F8, adj_stack_size = 508\<rparr>,
      (boot [] [0x2000])\<lparr>heap_calls := [Malloc KUMM 510 0x1000], led_stackcreated := True\<rparr>)"
    by (simp add: create_defs scene_defs)
  have again: "up_create_stack flat_build
       \<lparr>stack_alloc_ptr = 0x1000, adj_stack_ptr = 0x11F8, adj_stack_size = 508\<rparr>
       ((boot [] [0x2000])\<lparr>heap_calls := [Malloc KUMM 510 0x1000], led_stackcreated := True\<rparr>)
       508 TCB_FLAG_TTYPE_TASK =
     (OK, \<lparr>stack_alloc_ptr = 0x1000, adj_stack_ptr = 0x11F8, adj_stack_size = 508\<rparr>,
      (boot [] [0x2000])\<lparr>heap_calls := [Malloc KUMM 510 0x1000], led_stackcreated := True\<rparr>)"
    by (simp add: create_defs scene_defs)
  have "(508 :: size_t) = 510 - ((0x1000 + 510) AND 3)"
    using adjusted_size_retained_and_compared[OF first again] by simp
  then show ?thesis using first again by blast
qed

text \<open>
  C8 as stated fails. A kernel thread asks for 1022 bytes and gets \<open>0x4000\<close>: the
  descriptor then holds \<open>0x4000\<close>, \<open>0x43F8\<close> and 1020, and 1022 nowhere. A next request of
  1020 bytes calls no heap; a next request of 1022 bytes, the size requested before,
  frees the region and allocates another.
\<close>

theorem requested_size_not_retained_counterexample:
  "first_1022 =
     (OK, \<lparr>stack_alloc_ptr = 0x4000, adj_stack_ptr = 0x43F8, adj_stack_size = 1020\<rparr>,
      (boot [0x5000] [])\<lparr>heap_calls := [Malloc KMM 1022 0x4000], led_stackcreated := True\<rparr>) \<and>
   heap_calls (machine_of
     (up_create_stack protected_build (tcb_of first_1022) (machine_of first_1022) 1020
        TCB_FLAG_TTYPE_KERNEL)) = [Malloc KMM 1022 0x4000] \<and>
   heap_calls (machine_of
     (up_create_stack protected_build (tcb_of first_1022) (machine_of first_1022) 1022
        TCB_FLAG_TTYPE_KERNEL)) =
     [Malloc KMM 1022 0x4000, Free KMM 0x4000, Malloc KMM 1022 0x5000]"
  by (simp add: create_defs scene_defs run_defs)

subsection \<open>C9: bounds on the adjusted size\<close>

text \<open>
  C9, as the code has it. On a successful create the adjusted size does not exceed the
  requested size whenever the requested size is at least 3 bytes or the base is a
  multiple of 4; and for every requested size of at least 8 bytes the adjusted size is
  positive.
\<close>

theorem adjusted_size_bounds:
  assumes run: "up_create_stack cfg tcb m n tt = (OK, tcb', m')"
  shows "(3 \<le> n \<or> stack_alloc_ptr tcb' AND 3 = 0 \<longrightarrow> adj_stack_size tcb' \<le> n) \<and>
         (8 \<le> n \<longrightarrow> 0 < adj_stack_size tcb')"
proof -
  let ?b = "stack_alloc_ptr tcb'"
  have sz: "adj_stack_size tcb' = n - ((?b + n) AND 3)" by (rule create_size[OF run])
  have a: "adj_stack_size tcb' \<le> n" if "3 \<le> n"
    unfolding sz using that and3_le3 by (rule trim_le)
  have b: "adj_stack_size tcb' \<le> n" if "?b AND 3 = 0"
    unfolding sz aligned_low_bits[OF that] by (rule word_sub_le) (rule word_and_le2)
  have c: "0 < adj_stack_size tcb'" if "8 \<le> n"
  proof -
    from that have "4 \<le> n" by (simp add: word_le_nat_alt)
    then show ?thesis unfolding sz using and3_le3 by (rule trim_pos)
  qed
  show ?thesis using a b c by blast
qed

text \<open>510 bytes at \<open>0x1000\<close>: the adjusted size is 508.\<close>

theorem adjusted_size_bounds_witness:
  "up_create_stack flat_build no_stack (boot [] [0x1000]) 510 TCB_FLAG_TTYPE_TASK =
     (OK, \<lparr>stack_alloc_ptr = 0x1000, adj_stack_ptr = 0x11F8, adj_stack_size = 508\<rparr>,
      (boot [] [])\<lparr>heap_calls := [Malloc KUMM 510 0x1000], led_stackcreated := True\<rparr>) \<and>
   (3 :: size_t) \<le> 510 \<and> (0x1000 :: uint32_t) AND 3 = 0 \<and> (8 :: size_t) \<le> 510 \<and>
   (508 :: size_t) \<le> 510 \<and> (0 :: size_t) < 508"
proof -
  have run: "up_create_stack flat_build no_stack (boot [] [0x1000]) 510 TCB_FLAG_TTYPE_TASK =
     (OK, \<lparr>stack_alloc_ptr = 0x1000, adj_stack_ptr = 0x11F8, adj_stack_size = 508\<rparr>,
      (boot [] [])\<lparr>heap_calls := [Malloc KUMM 510 0x1000], led_stackcreated := True\<rparr>)"
    by (simp add: create_defs scene_defs)
  show ?thesis using run adjusted_size_bounds[OF run] by simp
qed

text \<open>
  C9 as stated fails in its first half. One byte is requested and the heap hands out
  \<open>0x1001\<close>: create returns \<open>OK\<close>, and the adjusted size \<open>0xFFC - 0x1001 + 4\<close> wraps around
  to \<open>0xFFFFFFFF\<close>, which exceeds 1.
\<close>

theorem adjusted_exceeds_request_counterexample:
  "fst (up_create_stack flat_build no_stack (boot [] [0x1001]) 1 TCB_FLAG_TTYPE_TASK) = OK \<and>
   \<not> (adj_stack_size (tcb_of
         (up_create_stack flat_build no_stack (boot [] [0x1001]) 1 TCB_FLAG_TTYPE_TASK)) \<le> 1)"
  by (simp add: create_defs scene_defs run_defs word_le_nat_alt unsigned_minus_1_eq_mask
      mask_eq_exp_minus_1)

subsection \<open>C10: requests smaller than a word\<close>

text \<open>
  C10. For a requested size of 1, 2 or 3 bytes, create returns \<open>OK\<close> whenever the selected
  heap has memory to hand out. The adjusted stack pointer stored is
  \<open>base + size - 4\<close> with the low two bits cleared; it lies 1 to 6 bytes before the base
  (below it, unless the base is within the first 6 addresses), so it is no address of the
  allocated region. The adjusted size stored is the size less the low two bits of
  \<open>base + size\<close>, computed modulo \<open>2 ^ 32\<close>; it is 0 when the base is a multiple of 4.
\<close>

theorem sub_word_request_accepted:
  assumes run: "up_create_stack cfg tcb m n tt = (r, tcb', m')"
    and small: "0 < n" "n < 4"
    and mem: "next_region (if CONFIG_MM_KERNEL_HEAP cfg \<and> tt = TCB_FLAG_TTYPE_KERNEL
                           then kmm_supply m else kumm_supply m) \<noteq> 0"
  shows "r = OK \<and>
         adj_stack_ptr tcb' = (stack_alloc_ptr tcb' + n - 4) AND NOT 3 \<and>
         \<not> (adj_stack_ptr tcb' - stack_alloc_ptr tcb' < n) \<and>
         1 \<le> unat (stack_alloc_ptr tcb' - adj_stack_ptr tcb') \<and>
         unat (stack_alloc_ptr tcb' - adj_stack_ptr tcb') \<le> 6 \<and>
         (6 \<le> unat (stack_alloc_ptr tcb') \<longrightarrow> adj_stack_ptr tcb' < stack_alloc_ptr tcb') \<and>
         adj_stack_size tcb' = n - ((stack_alloc_ptr tcb' + n) AND 3) \<and>
         (stack_alloc_ptr tcb' AND 3 = 0 \<longrightarrow> adj_stack_size tcb' = 0)"
proof -
  let ?b = "stack_alloc_ptr tcb'"
  have "?b \<noteq> 0" using create_base[OF run] mem by (auto split: if_splits)
  then have ok: "r = OK" using create_OK_iff[OF run] by simp
  have run': "up_create_stack cfg tcb m n tt = (OK, tcb', m')" using run ok by simp
  have ptr: "adj_stack_ptr tcb' = (?b + n - 4) AND NOT 3"
    using create_adjusted[OF run'] by simp
  have top: "adj_stack_ptr tcb' = ?b + n - 4 - ((?b + n) AND 3)" by (rule create_top[OF run'])
  have sz: "adj_stack_size tcb' = n - ((?b + n) AND 3)" by (rule create_size[OF run'])
  have out: "\<not> (adj_stack_ptr tcb' - ?b < n) \<and> 1 \<le> unat (?b - adj_stack_ptr tcb') \<and>
             unat (?b - adj_stack_ptr tcb') \<le> 6"
    unfolding top by (rule small_outside[OF small and3_le3])
  have low: "adj_stack_ptr tcb' < ?b" if "6 \<le> unat ?b"
    using out that by (intro below) simp_all
  have zero: "adj_stack_size tcb' = 0" if "?b AND 3 = 0"
    unfolding sz aligned_low_bits[OF that] small_and3[OF small(2)] by simp
  show ?thesis using ok ptr out low sz zero by blast
qed

text \<open>One byte at \<open>0x1000\<close>: the stack pointer stored is \<open>0xFFC\<close>, the size stored is 0.\<close>

theorem sub_word_request_accepted_witness:
  "up_create_stack flat_build no_stack (boot [] [0x1000]) 1 TCB_FLAG_TTYPE_TASK =
     (OK, \<lparr>stack_alloc_ptr = 0x1000, adj_stack_ptr = 0xFFC, adj_stack_size = 0\<rparr>,
      (boot [] [])\<lparr>heap_calls := [Malloc KUMM 1 0x1000], led_stackcreated := True\<rparr>) \<and>
   (0 :: size_t) < 1 \<and> (1 :: size_t) < 4 \<and> (0x1000 :: uint32_t) \<noteq> 0 \<and>
   6 \<le> unat (0x1000 :: uint32_t) \<and> (0x1000 :: uint32_t) AND 3 = 0 \<and>
   \<not> ((0xFFC :: uint32_t) - 0x1000 < 1) \<and> (0xFFC :: uint32_t) < 0x1000 \<and>
   unat ((0x1000 :: uint32_t) - 0xFFC) = 4"
proof -
  have run: "up_create_stack flat_build no_stack (boot [] [0x1000]) 1 TCB_FLAG_TTYPE_TASK =
     (OK, \<lparr>stack_alloc_ptr = 0x1000, adj_stack_ptr = 0xFFC, adj_stack_size = 0\<rparr>,
      (boot [] [])\<lparr>heap_calls := [Malloc KUMM 1 0x1000], led_stackcreated := True\<rparr>)"
    by (simp add: create_defs scene_defs)
  have small: "(0 :: size_t) < 1" "(1 :: size_t) < 4" by simp_all
  have mem: "next_region (if CONFIG_MM_KERNEL_HEAP flat_build \<and>
         TCB_FLAG_TTYPE_TASK = TCB_FLAG_TTYPE_KERNEL
       then kmm_supply (boot [] [0x1000]) else kumm_supply (boot [] [0x1000])) \<noteq> 0"
    by (simp add: scene_defs)
  have facts: "\<not> ((0xFFC :: uint32_t) - 0x1000 < 1) \<and> (0xFFC :: uint32_t) < 0x1000"
    using sub_word_request_accepted[OF run small mem] by simp
  have "(0x1000 :: uint32_t) \<noteq> 0" "6 \<le> unat (0x1000 :: uint32_t)"
    "(0x1000 :: uint32_t) AND 3 = 0" "unat ((0x1000 :: uint32_t) - 0xFFC) = 4"
    by simp_all
  then show ?thesis using run small facts by blast
qed

end
